theory Spec2Isabelle
  imports Complex_Main
begin

section \<open>JavaScript values used by script.js\<close>

text \<open>
  A JavaScript string is a sequence of UTF-16 code units; it is modelled as the list of
  those code units.  ASCII text is written as an Isabelle string and converted with
  \<open>ascii\<close>; text beyond ASCII (the Korean labels, the icons) is given by its code units.
\<close>

type_synonym js_string = "nat list"

definition ascii :: "string \<Rightarrow> js_string" where
  "ascii s = map of_char s"

text \<open>
  The numbers of the script are finite decimals and integers.  A number is modelled by
  its exact value: a \<open>rat\<close> where the source holds a fraction, an \<open>int\<close> where the
  source holds the result of \<open>Math.round\<close> or an integer literal.  A tick value of the
  chart is a \<open>js_number\<close>, defined below.
  Every rounding below is applied at a distance of more than \<open>1/100\<close> from a half, so the
  binary representation of the literals does not change any rounded value.
\<close>

text \<open>\<open>Math.round\<close>: the nearest integer, a half rounded towards plus infinity.\<close>

definition Math_round :: "rat \<Rightarrow> int" where
  "Math_round x = \<lfloor>x + 1 / 2\<rfloor>"

text \<open>The decimal digits of a natural number, most significant first.\<close>

fun digits10 :: "nat \<Rightarrow> js_string" where
  "digits10 n = (if n < 10 then [48 + n] else digits10 (n div 10) @ [48 + n mod 10])"

declare digits10.simps [simp del]

text \<open>
  A finite number as a callback of the chart receives it.  A number is identified by the
  shortest decimal that reads back as it: its sign, the digits of that decimal as a
  natural number \<open>s\<close> without trailing zero, and the power of ten that scales them, so
  that the magnitude is \<open>s * 10^e\<close>.  With \<open>k\<close> the number of digits of \<open>s\<close> and
  \<open>n = k + e\<close> this is the triple \<open>(s, k, n)\<close> from which the language defines the string
  of a number.  Zero has \<open>s = 0\<close>.
\<close>

record js_number =
  negative :: bool
  significand :: nat
  exponent10 :: int

text \<open>The number of zeros the decimal digits of a natural number end with.\<close>

fun trailing_zeros :: "nat \<Rightarrow> nat" where
  "trailing_zeros n =
     (if n = 0 \<or> n mod 10 \<noteq> 0 then 0 else Suc (trailing_zeros (n div 10)))"

declare trailing_zeros.simps [simp del]

text \<open>An integral number, given by its integer.\<close>

definition Number_of_int :: "int \<Rightarrow> js_number" where
  "Number_of_int v =
     \<lparr>negative = v < 0,
      significand = nat \<bar>v\<bar> div 10 ^ trailing_zeros (nat \<bar>v\<bar>),
      exponent10 = int (trailing_zeros (nat \<bar>v\<bar>))\<rparr>"

text \<open>
  \<open>Number::toString\<close> (radix 10) on a finite number, which is what \<^verbatim>\<open>value + '...'\<close>
  prints: zero is \<open>0\<close>; a negative number is the minus sign and the string of its
  magnitude; otherwise, by the position \<open>n\<close> of the decimal point, the digits followed by
  zeros (\<open>k \<le> n \<le> 21\<close>), the digits with a point inside (\<open>0 < n \<le> 21\<close>), \<open>0.\<close> with
  zeros and the digits (\<open>-6 < n \<le> 0\<close>), and the exponential form with \<open>e+\<close> or \<open>e-\<close>
  anywhere else.
\<close>

definition Number_toString :: "js_number \<Rightarrow> js_string" where
  "Number_toString x =
     (let s = digits10 (significand x); k = int (length s); n = k + exponent10 x
      in if significand x = 0 then [48]
         else (if negative x then [45] else []) @
           (if k \<le> n \<and> n \<le> 21 then s @ replicate (nat (n - k)) 48
            else if 0 < n \<and> n \<le> 21 then take (nat n) s @ [46] @ drop (nat n) s
            else if - 6 < n \<and> n \<le> 0 then [48, 46] @ replicate (nat (- n)) 48 @ s
            else (if k = 1 then s else [hd s, 46] @ tl s)
                   @ [101, if 0 \<le> n - 1 then 43 else 45] @ digits10 (nat \<bar>n - 1\<bar>)))"

section \<open>The formatter\<close>

text \<open>
  \<^verbatim>\<open>function formatNumber(num) { return new Intl.NumberFormat('ko-KR').format(num); }\<close>

  \<open>Intl.NumberFormat\<close> belongs to the platform (ECMA-402), not to the repository.  For the
  locale \<open>ko-KR\<close> the decimal pattern groups the integer digits in threes from the right
  with the separator U+002C and writes a negative number with a leading U+002D.
  \<open>formatNumber\<close> takes an integral argument by its integer, as \<open>updateSummaryData\<close>
  passes it; \<open>formatNumber_number\<close> further down takes any finite number, as a tick
  callback passes it, and gives the same string on an integral one.
  \<open>group3\<close> works on the digits in reversed order, least significant first.
\<close>

fun group3 :: "js_string \<Rightarrow> js_string" where
  "group3 (a # b # c # d # ds) = a # b # c # 44 # group3 (d # ds)"
| "group3 ds = ds"

definition Intl_NumberFormat_koKR_format :: "int \<Rightarrow> js_string" where
  "Intl_NumberFormat_koKR_format num =
     (if num < 0 then [45] else []) @ rev (group3 (rev (digits10 (nat \<bar>num\<bar>))))"

definition formatNumber :: "int \<Rightarrow> js_string" where
  "formatNumber num = Intl_NumberFormat_koKR_format num"

text \<open>
  \<open>formatNumber\<close> on a number that need not be integral, as the tick callback of the left
  axis calls it.  The decimal format of the locale keeps at most three fraction digits:
  the magnitude is rounded to thousandths, a half away from zero; the integer digits are
  grouped as above; the fraction digits follow U+002E without trailing zeros, and nothing
  follows when the fraction is zero.  A negative number keeps its sign.
\<close>

definition round_to_thousandths :: "js_number \<Rightarrow> nat" where
  "round_to_thousandths x =
     (let s = significand x; e = exponent10 x + 3
      in if 0 \<le> e then s * 10 ^ nat e
         else (2 * s + 10 ^ nat (- e)) div (2 * 10 ^ nat (- e)))"

definition fraction_digits :: "nat \<Rightarrow> js_string" where
  "fraction_digits f =
     (if f = 0 then []
      else 46 # rev (dropWhile (\<lambda>c. c = 48)
             (rev [48 + f div 100, 48 + f div 10 mod 10, 48 + f mod 10])))"

definition Intl_NumberFormat_koKR_format_number :: "js_number \<Rightarrow> js_string" where
  "Intl_NumberFormat_koKR_format_number x =
     (let q = round_to_thousandths x
      in (if negative x then [45] else []) @ rev (group3 (rev (digits10 (q div 1000))))
           @ fraction_digits (q mod 1000))"

definition formatNumber_number :: "js_number \<Rightarrow> js_string" where
  "formatNumber_number num = Intl_NumberFormat_koKR_format_number num"

text \<open>The number a digit string denotes, for stating what the formatter prints.\<close>

definition decimal_value :: "js_string \<Rightarrow> nat" where
  "decimal_value s = foldl (\<lambda>a c. 10 * a + (c - 48)) 0 s"

section \<open>The embedded dataset\<close>

text \<open>
  \<open>energyTips\<close>: the ten tip records of the script, in source order.  Each field is
  listed by its UTF-16 code units (an icon outside the basic plane is a surrogate pair).
\<close>

record TipRecord =
  icon :: js_string
  title :: js_string
  description :: js_string

definition energyTips :: "TipRecord list" where
  "energyTips = [
    \<lparr>icon = [55357, 56481],
     title = [76, 69, 68, 32, 51312, 47749, 32, 49324, 50857],
     description =
       [44592, 51316, 32, 54805, 44305, 46321, 51012, 32, 76, 69, 68, 32, 51312, 47749,
       51004, 47196, 32, 44368, 52404, 54616, 50668, 32, 51204, 47141, 32, 49548, 48708,
       47484, 32, 55, 48, 37, 32, 51208, 50557, 54624, 32, 49688, 32, 51080, 49845, 45768,
       45796, 46]\<rparr>,
    \<lparr>icon = [10052, 65039],
     title = [51201, 51221, 32, 45257, 45212, 48169, 32, 50728, 46020, 32, 50976, 51648],
     description =
       [50668, 47492, 52384, 32, 50, 54, 176, 67, 44, 32, 44200, 50872, 52384, 32, 50, 48,
       176, 67, 47196, 32, 49444, 51221, 54616, 50668, 32, 50640, 45320, 51648, 32, 49324,
       50857, 47049, 51012, 32, 53356, 44172, 32, 51460, 51068, 32, 49688, 32, 51080, 49845,
       45768, 45796, 46]\<rparr>,
    \<lparr>icon = [55357, 56588],
     title = [45824, 44592, 51204, 47141, 32, 52264, 45800],
     description =
       [49324, 50857, 54616, 51648, 32, 50506, 45716, 32, 51204, 51088, 44592, 44592, 51032,
       32, 54540, 47084, 44536, 47484, 32, 48977, 44144, 45208, 32, 47680, 54000, 53485, 32,
       49828, 50948, 52824, 47484, 32, 44732, 51452, 49464, 50836, 46]\<rparr>,
    \<lparr>icon = [55358, 56991],
     title = [51088, 50672, 44305, 32, 54876, 50857],
     description =
       [45230, 32, 49884, 44036, 50640, 45716, 32, 48660, 46972, 51064, 46300, 47484, 32,
       50676, 50612, 32, 51088, 50672, 44305, 51012, 32, 52572, 45824, 54620, 32, 54876,
       50857, 54616, 44256, 32, 51312, 47749, 32, 49324, 50857, 51012, 32, 51460, 51060,
       49464, 50836, 46]\<rparr>,
    \<lparr>icon = [55357, 56741, 65039],
     title = [52980, 54504, 53552, 32, 51208, 51204, 47784, 46300, 32, 49444, 51221],
     description =
       [52980, 54504, 53552, 50752, 32, 47784, 45768, 53552, 51032, 32, 51208, 51204, 47784,
       46300, 47484, 32, 49444, 51221, 54616, 50668, 32, 48520, 54596, 50836, 54620, 32,
       51204, 47141, 32, 49548, 48708, 47484, 32, 48169, 51648, 54616, 49464, 50836, 46]\<rparr>,
    \<lparr>icon = [55357, 57002],
     title = [52636, 51077, 47928, 32, 44288, 47532],
     description =
       [45257, 45212, 48169, 32, 54952, 50984, 51012, 32, 45458, 51060, 44592, 32, 50948,
       54644, 32, 52636, 51077, 47928, 51012, 32, 51088, 51452, 32, 50676, 50612, 46160,
       51648, 32, 47568, 44256, 32, 49888, 49549, 55176, 32, 45803, 50500, 51452, 49464,
       50836, 46]\<rparr>,
    \<lparr>icon = [55356, 57121, 65039],
     title = [45800, 50676, 32, 44060, 49440],
     description =
       [52285, 47928, 44284, 32, 47928, 53960, 51032, 32, 45800, 50676, 51012, 32, 44060,
       49440, 54616, 50668, 32, 45257, 45212, 48169, 32, 50640, 45320, 51648, 32, 49552,
       49892, 51012, 32, 52572, 49548, 54868, 54616, 49464, 50836, 46]\<rparr>,
    \<lparr>icon = [9200],
     title = [54588, 53356, 53440, 51076, 32, 49324, 50857, 32, 51088, 51228],
     description =
       [51204, 47141, 32, 49688, 50836, 44032, 32, 45458, 51008, 32, 49884, 44036, 45824,
       40, 50724, 54980, 32, 50, 45, 53, 49884, 41, 50640, 45716, 32, 44256, 51204, 47141,
       32, 44592, 44592, 32, 49324, 50857, 51012, 32, 51088, 51228, 54616, 49464, 50836, 46]\<rparr>,
    \<lparr>icon = [55357, 56580],
     title = [51221, 44592, 51201, 51064, 32, 49444, 48708, 32, 51216, 44160],
     description =
       [50640, 50612, 52968, 32, 54596, 53552, 32, 52397, 49548, 44, 32, 49444, 48708, 32,
       51216, 44160, 51012, 32, 53685, 54644, 32, 50640, 45320, 51648, 32, 54952, 50984,
       51012, 32, 52572, 51201, 54868, 54616, 49464, 50836, 46]\<rparr>,
    \<lparr>icon = [55357, 56522],
     title = [50640, 45320, 51648, 32, 49324, 50857, 47049, 32, 47784, 45768, 53552, 47553],
     description =
       [51221, 44592, 51201, 51004, 47196, 32, 51204, 47141, 32, 49324, 50857, 47049, 51012,
       32, 54869, 51064, 54616, 44256, 32, 51208, 50557, 32, 47785, 54364, 47484, 32, 49444,
       51221, 54616, 50668, 32, 44288, 47532, 54616, 49464, 50836, 46]\<rparr>]"

text \<open>
  \<open>monthlyData\<close>: an object literal with the keys \<open>"1"\<close> to \<open>"12"\<close>.  The keys are
  integer-like property names and are modelled by their number; the object is the list of
  its properties in source order.  \<open>Object.values\<close> enumerates integer-like keys in
  ascending numeric order.
\<close>

record MonthlyRecord =
  usage :: rat
  cost :: rat

definition monthlyData :: "(nat \<times> MonthlyRecord) list" where
  "monthlyData = [
    (1, \<lparr>usage = 197563.47, cost = 55366215\<rparr>),
    (2, \<lparr>usage = 177796.08, cost = 49819485\<rparr>),
    (3, \<lparr>usage = 143327.69, cost = 40147655\<rparr>),
    (4, \<lparr>usage = 132277.06, cost = 37046848\<rparr>),
    (5, \<lparr>usage = 143383.93, cost = 40163436\<rparr>),
    (6, \<lparr>usage = 137995.68, cost = 38651493\<rparr>),
    (7, \<lparr>usage = 191801.46, cost = 53749395\<rparr>),
    (8, \<lparr>usage = 202643.01, cost = 56791534\<rparr>),
    (9, \<lparr>usage = 134760.35, cost = 37743659\<rparr>),
    (10, \<lparr>usage = 142068.13, cost = 39794222\<rparr>),
    (11, \<lparr>usage = 138033.7, cost = 38662161\<rparr>),
    (12, \<lparr>usage = 138676.47, cost = 38842522\<rparr>)]"

definition Object_values :: "(nat \<times> 'v) list \<Rightarrow> 'v list" where
  "Object_values obj = map snd (sort_key fst obj)"

section \<open>The document\<close>

text \<open>
  The inline style properties the script writes.  \<open>animationDelay\<close> holds the index
  \<open>i\<close> of the template \<^verbatim>\<open>${index * 0.1}s\<close>; the product is a binary floating-point
  number and only its index is kept.
\<close>

record style =
  opacity :: js_string
  transform :: js_string
  transition :: js_string
  backgroundColor :: js_string
  height :: js_string
  animationDelay :: "nat option"

record element =
  className :: js_string
  innerHTML :: js_string
  style :: style
  click_listeners :: nat
  mouseenter_listeners :: nat
  mouseleave_listeners :: nat

text \<open>\<^verbatim>\<open>document.createElement('div')\<close>: a fresh element.\<close>

definition createElement :: element where
  "createElement =
     \<lparr>className = [], innerHTML = [],
      style = \<lparr>opacity = [], transform = [], transition = [], backgroundColor = [],
               height = [], animationDelay = None\<rparr>,
      click_listeners = 0, mouseenter_listeners = 0, mouseleave_listeners = 0\<rparr>"

text \<open>
  The configuration object handed to \<^verbatim>\<open>new Chart(ctx, ...)\<close>: the category labels,
  the two datasets and the tick callbacks of the two value axes.  Colours, fonts, titles
  and the interaction mode are constants of the source that no function reads back; they
  are left out.  A tick callback receives the tick value, any finite number.
\<close>

record chart_dataset =
  label :: js_string
  data :: "int list"
  yAxisID :: js_string

record chart_config =
  labels :: "js_string list"
  datasets :: "chart_dataset list"
  y_ticks_callback :: "js_number \<Rightarrow> js_string"
  y1_ticks_callback :: "js_number \<Rightarrow> js_string"

text \<open>
  The state of a loaded page: the two global constants of the script, the text of the four
  summary slots (\<open>#total-usage\<close>, \<open>#total-cost\<close>, \<open>#avg-usage\<close>, \<open>#avg-cost\<close>), the
  children of \<open>#tips-grid\<close>, the elements of class \<open>summary-card\<close>, the elements matching
  \<open>.chart-section, .tips-section\<close>, the first element of class \<open>chart-container\<close>,
  the chart drawn on \<open>#monthlyChart\<close>, and the sections an intersection observer watches
  (by their position in \<open>animated_sections\<close>).  The markup file is not among the sources,
  so the number of cards and sections is left open.
\<close>

record page =
  monthlyData_var :: "(nat \<times> MonthlyRecord) list"
  energyTips_var :: "TipRecord list"
  total_usage :: js_string
  total_cost :: js_string
  avg_usage :: js_string
  avg_cost :: js_string
  tips_grid :: "element list"
  summary_cards :: "element list"
  animated_sections :: "element list"
  chart_container :: element
  monthlyChart :: "chart_config option"
  observed :: "nat list"

section \<open>Rendering\<close>

text \<open>
  The template literal of \<open>createTipCards\<close>: a line break and twelve spaces before each
  of the three tags, a line break and eight spaces at the end, and the three fields of the
  tip inserted as they are.
\<close>

definition tipCardHTML :: "TipRecord \<Rightarrow> js_string" where
  "tipCardHTML tip =
     10 # replicate 12 32 @ ascii ''<span class='' @ [34] @ ascii ''tip-icon'' @ [34] @ ascii ''>''
       @ icon tip @ ascii ''</span>'' @
     10 # replicate 12 32 @ ascii ''<h3>'' @ title tip @ ascii ''</h3>'' @
     10 # replicate 12 32 @ ascii ''<p>'' @ description tip @ ascii ''</p>'' @
     10 # replicate 8 32"

text \<open>The body of the \<open>forEach\<close> callback up to \<open>appendChild\<close>.\<close>

definition newTipCard :: "TipRecord \<Rightarrow> nat \<Rightarrow> element" where
  "newTipCard tip index =
     (let tipCard = createElement;
          tipCard = tipCard\<lparr>className := ascii ''tip-card''\<rparr>;
          tipCard = tipCard\<lparr>style := (style tipCard)\<lparr>animationDelay := Some index\<rparr>\<rparr>;
          tipCard = tipCard\<lparr>innerHTML := tipCardHTML tip\<rparr>
      in tipCard)"

text \<open>\<open>createTipCards\<close>: one \<open>appendChild\<close> on \<open>#tips-grid\<close> per tip, in order.\<close>

definition createTipCards :: "page \<Rightarrow> page" where
  "createTipCards s =
     s\<lparr>tips_grid :=
         foldl (\<lambda>tipsGrid (index, tip). tipsGrid @ [newTipCard tip index])
           (tips_grid s) (enumerate 0 (energyTips_var s))\<rparr>"

text \<open>
  \<open>updateSummaryData\<close>: the four figures are constants of the function body.  The unit of
  the two cost slots is a space and the syllable U+C6D0 (code unit 50896).
\<close>

definition updateSummaryData :: "page \<Rightarrow> page" where
  "updateSummaryData s =
     (let totalUsage = (1880327.03 :: rat);
          totalCost = (526778625 :: int);
          avgUsage = (156693.92 :: rat);
          avgCost = (43898219 :: int)
      in s\<lparr>total_usage := formatNumber (Math_round totalUsage) @ ascii '' kWh'',
           total_cost := formatNumber totalCost @ [32, 50896],
           avg_usage := formatNumber (Math_round avgUsage) @ ascii '' kWh'',
           avg_cost := formatNumber avgCost @ [32, 50896]\<rparr>)"

definition setChartHeight :: "page \<Rightarrow> page" where
  "setChartHeight s =
     s\<lparr>chart_container :=
         (chart_container s)\<lparr>style := (style (chart_container s))\<lparr>height := ascii ''400px''\<rparr>\<rparr>\<rparr>"

section \<open>The chart\<close>

text \<open>
  The labels are the month numbers followed by the syllable U+C6D4 (code unit 50900).  The
  unit of the right axis is the three syllables U+BC31 U+B9CC U+C6D0 (million won); the
  right tick callback is \<^verbatim>\<open>value + unit\<close>, the string conversion of the number followed by
  the unit.
\<close>

definition months :: "js_string list" where
  "months = [[49, 50900], [50, 50900], [51, 50900], [52, 50900], [53, 50900], [54, 50900],
     [55, 50900], [56, 50900], [57, 50900], [49, 48, 50900], [49, 49, 50900], [49, 50, 50900]]"

definition createChart :: "page \<Rightarrow> page" where
  "createChart s =
     (let usageData = map (\<lambda>data. Math_round (usage data)) (Object_values (monthlyData_var s));
          costData = map (\<lambda>data. Math_round (cost data / 1000000)) (Object_values (monthlyData_var s))
      in s\<lparr>monthlyChart := Some
           \<lparr>labels = months,
            datasets =
              [\<lparr>label = [51204, 47141, 32, 49324, 50857, 47049, 32, 40, 107, 87, 104, 41],
                data = usageData, yAxisID = ascii ''y''\<rparr>,
               \<lparr>label = [51204, 44592, 50836, 44552, 32, 40, 48177, 47564, 50896, 41],
                data = costData, yAxisID = ascii ''y1''\<rparr>],
            y_ticks_callback = (\<lambda>value. formatNumber_number value @ ascii '' kWh''),
            y1_ticks_callback = (\<lambda>value. Number_toString value @ [48177, 47564, 50896])\<rparr>\<rparr>)"

section \<open>Interaction\<close>

text \<open>
  \<open>addCardInteractions\<close> registers a click listener on every summary card and a pair of
  hover listeners on every element of class \<open>tip-card\<close> (looked up among the children of
  the tips grid, where \<open>createTipCards\<close> puts them).
\<close>

definition addCardInteractions :: "page \<Rightarrow> page" where
  "addCardInteractions s =
     s\<lparr>summary_cards :=
         map (\<lambda>card. card\<lparr>click_listeners := Suc (click_listeners card)\<rparr>) (summary_cards s),
       tips_grid :=
         map (\<lambda>card. if className card = ascii ''tip-card''
                then card\<lparr>mouseenter_listeners := Suc (mouseenter_listeners card),
                          mouseleave_listeners := Suc (mouseleave_listeners card)\<rparr>
                else card) (tips_grid s)\<rparr>"

text \<open>
  An entry of an intersection observer: the section it is about, by position.  An entry
  for a position beyond the list names no element, and the update leaves the list as it is.
\<close>

record entry =
  target :: nat
  isIntersecting :: bool

text \<open>The observer callback of \<open>addScrollAnimations\<close>.\<close>

definition reveal :: "element \<Rightarrow> element" where
  "reveal el = el\<lparr>style := (style el)\<lparr>opacity := ascii ''1'', transform := ascii ''translateY(0)''\<rparr>\<rparr>"

definition observer_callback :: "entry list \<Rightarrow> page \<Rightarrow> page" where
  "observer_callback entries s =
     foldl (\<lambda>s entry.
         if isIntersecting entry
         then s\<lparr>animated_sections :=
                  (animated_sections s)[target entry := reveal (animated_sections s ! target entry)]\<rparr>
         else s) s entries"

definition hide :: "element \<Rightarrow> element" where
  "hide el = el\<lparr>style := (style el)\<lparr>opacity := ascii ''0'', transform := ascii ''translateY(30px)'',
     transition := ascii ''opacity 0.6s ease, transform 0.6s ease''\<rparr>\<rparr>"

definition addScrollAnimations :: "page \<Rightarrow> page" where
  "addScrollAnimations s =
     s\<lparr>animated_sections := map hide (animated_sections s),
       observed := observed s @ [0 ..< length (animated_sections s)]\<rparr>"

text \<open>
  The events a loaded page receives: a click on the \<open>i\<close>-th summary card and the timer
  that click starts, the pointer entering or leaving the \<open>j\<close>-th child of the tips grid, a
  batch of intersection entries, and a resize of the window.  A listener runs only where
  one is registered; the browser reports intersections of observed sections only.
\<close>

datatype event =
  Click nat | ClickTimeout nat | MouseEnter nat | MouseLeave nat
  | Intersection "entry list" | Resize

fun handle_event :: "event \<Rightarrow> page \<Rightarrow> page" where
  "handle_event (Click i) s =
     (if i < length (summary_cards s) \<and> 0 < click_listeners (summary_cards s ! i)
      then s\<lparr>summary_cards := (summary_cards s)[i := (summary_cards s ! i)
             \<lparr>style := (style (summary_cards s ! i))\<lparr>transform := ascii ''scale(0.95)''\<rparr>\<rparr>]\<rparr>
      else s)"
| "handle_event (ClickTimeout i) s =
     (if i < length (summary_cards s) \<and> 0 < click_listeners (summary_cards s ! i)
      then s\<lparr>summary_cards := (summary_cards s)[i := (summary_cards s ! i)
             \<lparr>style := (style (summary_cards s ! i))\<lparr>transform := []\<rparr>\<rparr>]\<rparr>
      else s)"
| "handle_event (MouseEnter j) s =
     (if j < length (tips_grid s) \<and> 0 < mouseenter_listeners (tips_grid s ! j)
      then s\<lparr>tips_grid := (tips_grid s)[j := (tips_grid s ! j)
             \<lparr>style := (style (tips_grid s ! j))\<lparr>backgroundColor := ascii ''#f8f9ff''\<rparr>\<rparr>]\<rparr>
      else s)"
| "handle_event (MouseLeave j) s =
     (if j < length (tips_grid s) \<and> 0 < mouseleave_listeners (tips_grid s ! j)
      then s\<lparr>tips_grid := (tips_grid s)[j := (tips_grid s ! j)
             \<lparr>style := (style (tips_grid s ! j))\<lparr>backgroundColor := []\<rparr>\<rparr>]\<rparr>
      else s)"
| "handle_event (Intersection entries) s =
     observer_callback (filter (\<lambda>e. target e \<in> set (observed s)) entries) s"
| "handle_event Resize s = s"

text \<open>The events of a page load, one after the other.\<close>

definition handle_events :: "event list \<Rightarrow> page \<Rightarrow> page" where
  "handle_events evs s = foldl (\<lambda>s ev. handle_event ev s) s evs"

text \<open>
  The two callbacks of the page load: the \<open>DOMContentLoaded\<close> listener, and the timer it
  starts (100 ms later).
\<close>

definition DOMContentLoaded :: "page \<Rightarrow> page" where
  "DOMContentLoaded s = setChartHeight (createTipCards (updateSummaryData s))"

definition DOMContentLoaded_timeout :: "page \<Rightarrow> page" where
  "DOMContentLoaded_timeout s = addScrollAnimations (addCardInteractions (createChart s))"

text \<open>Every function and listener of the script, as one operation on the page.\<close>

datatype operation =
  UpdateSummaryData | CreateTipCards | SetChartHeight | CreateChart | AddCardInteractions
  | AddScrollAnimations | Event event

fun perform :: "operation \<Rightarrow> page \<Rightarrow> page" where
  "perform UpdateSummaryData s = updateSummaryData s"
| "perform CreateTipCards s = createTipCards s"
| "perform SetChartHeight s = setChartHeight s"
| "perform CreateChart s = createChart s"
| "perform AddCardInteractions s = addCardInteractions s"
| "perform AddScrollAnimations s = addScrollAnimations s"
| "perform (Event ev) s = handle_event ev s"

definition perform_all :: "operation list \<Rightarrow> page \<Rightarrow> page" where
  "perform_all ops s = foldl (\<lambda>s op. perform op s) s ops"

text \<open>
  A document before any script has run, for concrete runs: the two globals hold the
  embedded data, the slots and the tips grid are empty, there are four summary cards and
  two animated sections.
\<close>

definition fresh_page :: page where
  "fresh_page =
     \<lparr>monthlyData_var = monthlyData, energyTips_var = energyTips,
      total_usage = [], total_cost = [], avg_usage = [], avg_cost = [],
      tips_grid = [],
      summary_cards = replicate 4 (createElement\<lparr>className := ascii ''summary-card''\<rparr>),
      animated_sections = [createElement\<lparr>className := ascii ''chart-section''\<rparr>,
                           createElement\<lparr>className := ascii ''tips-section''\<rparr>],
      chart_container = createElement\<lparr>className := ascii ''chart-container''\<rparr>,
      monthlyChart = None, observed = []\<rparr>"

text \<open>
  The two visual states of an animated section: hidden and offset, as
  \<open>addScrollAnimations\<close> leaves it, and visible and settled, as the observer callback
  leaves it.
\<close>

definition hidden :: "element \<Rightarrow> bool" where
  "hidden el =
     (opacity (style el) = ascii ''0'' \<and> transform (style el) = ascii ''translateY(30px)'')"

definition revealed :: "element \<Rightarrow> bool" where
  "revealed el =
     (opacity (style el) = ascii ''1'' \<and> transform (style el) = ascii ''translateY(0)'')"

section \<open>Markup in tip records\<close>

text \<open>
  A field is free of markup when it holds none of the characters \<open><\<close>, \<open>>\<close> and \<open>&\<close>.
\<close>

definition markup_free :: "TipRecord \<Rightarrow> bool" where
  "markup_free tip =
     (\<forall>c \<in> {60, 62, 38}. c \<notin> set (icon tip) \<and> c \<notin> set (title tip) \<and> c \<notin> set (description tip))"

text \<open>
  Two tip records with markup: the first closes the heading inside its title, the second
  carries the same text in its description.
\<close>

definition markup_tip_title :: TipRecord where
  "markup_tip_title =
     \<lparr>icon = ascii ''i'',
      title = ascii ''t</h3>'' @ 10 # replicate 12 32 @ ascii ''<p>u'',
      description = ascii ''d''\<rparr>"

definition markup_tip_description :: TipRecord where
  "markup_tip_description =
     \<lparr>icon = ascii ''i'',
      title = ascii ''t'',
      description = ascii ''u</h3>'' @ 10 # replicate 12 32 @ ascii ''<p>d''\<rparr>"

section \<open>The annual summary\<close>

text \<open>
  The AnnualSummary of section 3 of the specification, derived from the monthly records:
  the two totals; the averages are the totals divided by 12.
\<close>

definition derived_totalUsage :: "(nat \<times> MonthlyRecord) list \<Rightarrow> rat" where
  "derived_totalUsage records = sum_list (map (\<lambda>(month, r). usage r) records)"

definition derived_totalCost :: "(nat \<times> MonthlyRecord) list \<Rightarrow> rat" where
  "derived_totalCost records = sum_list (map (\<lambda>(month, r). cost r) records)"

section \<open>The billing calculator\<close>

text \<open>
  Modelled from the spec: the Billing Calculator is the offline analysis script of the
  repository, which is not among the sources; the numbers it produced are the costs
  embedded in \<open>monthlyData\<close>.  The definitions follow sections 3, 4.1 and 7 of the
  specification: a schedule is an ordered sequence of tiers, each with the upper bound of
  its band (none for the last tier) and a price; negative usage is rejected before any
  computation; otherwise each tier bills \<open>clamp(usage - L, 0, U - L)\<close> at its price, where
  \<open>L\<close> is the upper bound of the tier before it (0 for the first), and the sum is rounded
  to the nearest integer, a half rounded up.
\<close>

datatype billing_error = ValidationError

record RateTier =
  thresholdKWh :: "rat option"
  pricePerKWh :: rat

text \<open>\<open>clamp x lo hi\<close>, where no upper limit stands for plus infinity.\<close>

definition clamp :: "rat \<Rightarrow> rat \<Rightarrow> rat option \<Rightarrow> rat" where
  "clamp x lo hi = (case hi of None \<Rightarrow> max lo x | Some h \<Rightarrow> max lo (min x h))"

definition round_half_up :: "rat \<Rightarrow> int" where
  "round_half_up x = \<lfloor>x + 1 / 2\<rfloor>"

text \<open>
  Modelled from the spec: the walk over the tiers, carrying the lower bound of the current
  band.  Nothing is left to bill above an unbounded tier.
\<close>

fun tierCosts :: "rat \<Rightarrow> rat \<Rightarrow> RateTier list \<Rightarrow> rat" where
  "tierCosts L kwh [] = 0"
| "tierCosts L kwh (t # ts) =
     (case thresholdKWh t of
        None \<Rightarrow> clamp (kwh - L) 0 None * pricePerKWh t
      | Some U \<Rightarrow> clamp (kwh - L) 0 (Some (U - L)) * pricePerKWh t + tierCosts U kwh ts)"

definition billingCost :: "rat \<Rightarrow> RateTier list \<Rightarrow> billing_error + int" where
  "billingCost kwh tiers =
     (if kwh < 0 then Inl ValidationError
      else Inr (round_half_up (tierCosts 0 kwh tiers)))"

text \<open>
  The formula of section 4.1 written by tier index: \<open>L[i]\<close>, \<open>U[i]\<close>, the billable
  quantity of tier \<open>i\<close>, and the sum over the tiers.
\<close>

definition lowerBound :: "RateTier list \<Rightarrow> nat \<Rightarrow> rat" where
  "lowerBound tiers i = (if i = 0 then 0 else the (thresholdKWh (tiers ! (i - 1))))"

definition upperBound :: "RateTier list \<Rightarrow> nat \<Rightarrow> rat option" where
  "upperBound tiers i = thresholdKWh (tiers ! i)"

definition billable :: "RateTier list \<Rightarrow> rat \<Rightarrow> nat \<Rightarrow> rat" where
  "billable tiers kwh i =
     clamp (kwh - lowerBound tiers i) 0
       (map_option (\<lambda>U. U - lowerBound tiers i) (upperBound tiers i))"

definition tieredSum :: "RateTier list \<Rightarrow> rat \<Rightarrow> rat" where
  "tieredSum tiers kwh = (\<Sum>i < length tiers. billable tiers kwh i * pricePerKWh (tiers ! i))"

text \<open>
  A schedule as section 3 describes it: not empty, the bounds ascending from \<open>L\<close>, every
  tier but the last bounded and the last one unbounded.
\<close>

fun schedule_ok :: "rat \<Rightarrow> RateTier list \<Rightarrow> bool" where
  "schedule_ok L [] = False"
| "schedule_ok L [t] = (thresholdKWh t = None)"
| "schedule_ok L (t # ts) =
     (case thresholdKWh t of None \<Rightarrow> False | Some U \<Rightarrow> L \<le> U \<and> schedule_ok U ts)"

text \<open>The schedule of section 8: up to 100 kWh at 100 per kWh, above that at 200.\<close>

definition example_schedule :: "RateTier list" where
  "example_schedule =
     [\<lparr>thresholdKWh = Some 100, pricePerKWh = 100\<rparr>, \<lparr>thresholdKWh = None, pricePerKWh = 200\<rparr>]"

section \<open>Properties of the formatter\<close>

lemma digits10_not_Nil: "digits10 n \<noteq> []"
  by (subst digits10.simps) simp

lemma digits10_range: "c \<in> set (digits10 n) \<Longrightarrow> 48 \<le> c \<and> c \<le> 57"
proof (induction n arbitrary: c rule: digits10.induct)
  case (1 n)
  show ?case
  proof (cases "n < 10")
    case True
    with "1.prems" show ?thesis by (subst (asm) digits10.simps) simp
  next
    case False
    from "1.prems" have "c \<in> set (digits10 (n div 10)) \<or> c = 48 + n mod 10"
      using False by (subst (asm) digits10.simps) auto
    then show ?thesis
    proof
      assume "c \<in> set (digits10 (n div 10))"
      with "1.IH" False show ?thesis by blast
    next
      assume "c = 48 + n mod 10"
      moreover have "n mod 10 < 10" by simp
      ultimately show ?thesis by linarith
    qed
  qed
qed

lemma digits10_no_separator: "44 \<notin> set (digits10 n)"
  using digits10_range [of 44 n] by auto

lemma decimal_value_snoc: "decimal_value (s @ [c]) = 10 * decimal_value s + (c - 48)"
  by (simp add: decimal_value_def)

lemma decimal_value_digits10: "decimal_value (digits10 n) = n"
proof (induction n rule: digits10.induct)
  case (1 n)
  show ?case
  proof (cases "n < 10")
    case True
    then show ?thesis by (subst digits10.simps) (simp add: decimal_value_def)
  next
    case False
    with "1.IH" have "decimal_value (digits10 (n div 10)) = n div 10" by simp
    with False show ?thesis
      by (subst digits10.simps) (simp add: decimal_value_snoc)
  qed
qed

lemma digits10_no_leading_zero: "0 < n \<Longrightarrow> hd (digits10 n) \<noteq> 48"
proof (induction n rule: digits10.induct)
  case (1 n)
  show ?case
  proof (cases "n < 10")
    case True
    with "1.prems" show ?thesis by (subst digits10.simps) simp
  next
    case False
    then have "0 < n div 10" by simp
    with "1.IH" False have "hd (digits10 (n div 10)) \<noteq> 48" by simp
    with False show ?thesis
      by (subst digits10.simps) (simp add: digits10_not_Nil)
  qed
qed

lemma filter_group3: "44 \<notin> set ds \<Longrightarrow> filter (\<lambda>c. c \<noteq> 44) (group3 ds) = ds"
  by (induction ds rule: group3.induct) auto

lemma length_group3_ge: "length ds \<le> length (group3 ds)"
  by (induction ds rule: group3.induct) auto

lemma group3_not_Nil: "ds \<noteq> [] \<Longrightarrow> group3 ds \<noteq> []"
  by (induction ds rule: group3.induct) auto

lemma last_group3: "ds \<noteq> [] \<Longrightarrow> last (group3 ds) = last ds"
  by (induction ds rule: group3.induct) (auto simp: group3_not_Nil)

lemma group3_separators:
  "44 \<notin> set ds \<Longrightarrow> i < length (group3 ds) \<Longrightarrow> (group3 ds ! i = 44) = (i mod 4 = 3)"
proof (induction ds arbitrary: i rule: group3.induct)
  case (1 a b c d ds)
  consider "i = 0" | "i = 1" | "i = 2" | "i = 3" | "4 \<le> i" by linarith
  then show ?case
  proof cases
    case 5
    then obtain j where j: "i = j + 4" by (metis le_add_diff_inverse2)
    with "1.prems" have "j < length (group3 (d # ds))" by simp
    moreover from "1.prems" have "44 \<notin> set (d # ds)" by simp
    ultimately have "(group3 (d # ds) ! j = 44) = (j mod 4 = 3)" by (rule "1.IH" [rotated])
    with j show ?thesis by simp
  qed (use "1.prems" in auto)
qed (auto simp: nth_Cons' less_Suc_eq)

text \<open>
  Claim C7.  For every non-negative integer \<open>n\<close> the formatter prints the decimal digits
  of \<open>n\<close> in groups of three counted from the right, separated by the comma: removing
  the commas leaves the digit string of \<open>n\<close> (digits only, denoting \<open>n\<close>, without a
  leading zero for positive \<open>n\<close>), a comma stands exactly at every fourth position
  counted from the right end, and the output does not begin with a comma.  In particular
  \<open>formatNumber(1880327)\<close> is \<open>1,880,327\<close> and \<open>formatNumber(0)\<close> is \<open>0\<close>.
\<close>

theorem formatNumber_groups_of_three:
  assumes "0 \<le> n"
  shows "filter (\<lambda>c. c \<noteq> 44) (formatNumber n) = digits10 (nat n)
    \<and> (\<forall>c \<in> set (digits10 (nat n)). 48 \<le> c \<and> c \<le> 57)
    \<and> decimal_value (digits10 (nat n)) = nat n
    \<and> (0 < n \<longrightarrow> hd (digits10 (nat n)) \<noteq> 48)
    \<and> (\<forall>i < length (formatNumber n). (rev (formatNumber n) ! i = 44) = (i mod 4 = 3))
    \<and> formatNumber n \<noteq> [] \<and> hd (formatNumber n) \<noteq> 44
    \<and> formatNumber 1880327 = ascii ''1,880,327''
    \<and> formatNumber 0 = ascii ''0''"
proof -
  let ?ds = "digits10 (nat n)"
  let ?r = "rev ?ds"
  have fmt: "formatNumber n = rev (group3 ?r)"
    using assms by (simp add: formatNumber_def Intl_NumberFormat_koKR_format_def)
  have nosep: "44 \<notin> set ?r"
    using digits10_no_separator [of "nat n"] by simp
  have "filter (\<lambda>c. c \<noteq> 44) (rev (group3 ?r)) = rev (filter (\<lambda>c. c \<noteq> 44) (group3 ?r))"
    by (simp add: rev_filter)
  also have "\<dots> = ?ds"
    using filter_group3 [OF nosep] by simp
  finally have digits: "filter (\<lambda>c. c \<noteq> 44) (formatNumber n) = ?ds"
    by (simp add: fmt)
  have range: "\<forall>c \<in> set ?ds. 48 \<le> c \<and> c \<le> 57"
    using digits10_range by blast
  have val: "decimal_value ?ds = nat n"
    by (rule decimal_value_digits10)
  have lead: "0 < n \<longrightarrow> hd ?ds \<noteq> 48"
    using digits10_no_leading_zero [of "nat n"] by simp
  have seps: "\<forall>i < length (formatNumber n). (rev (formatNumber n) ! i = 44) = (i mod 4 = 3)"
    using group3_separators [OF nosep] by (simp add: fmt)
  have r: "?r \<noteq> []"
    using digits10_not_Nil [of "nat n"] by simp
  have "hd (rev (group3 ?r)) = last (group3 ?r)"
    by (simp add: hd_rev)
  also have "\<dots> = last ?r"
    by (rule last_group3 [OF r])
  also have "\<dots> \<noteq> 44"
    using nosep r last_in_set by metis
  finally have first: "formatNumber n \<noteq> [] \<and> hd (formatNumber n) \<noteq> 44"
    using group3_not_Nil [OF r] by (simp add: fmt)
  have ex1: "formatNumber 1880327 = ascii ''1,880,327''"
    by (simp add: formatNumber_def Intl_NumberFormat_koKR_format_def ascii_def digits10.simps)
  have ex2: "formatNumber 0 = ascii ''0''"
    by (simp add: formatNumber_def Intl_NumberFormat_koKR_format_def ascii_def digits10.simps)
  from digits range val lead seps first ex1 ex2 show ?thesis
    by blast
qed

theorem formatNumber_groups_of_three_witness:
  "(0::int) \<le> 43898219
   \<and> filter (\<lambda>c. c \<noteq> 44) (formatNumber 43898219) = ascii ''43898219''
   \<and> rev (formatNumber 43898219) ! 3 = 44
   \<and> rev (formatNumber 43898219) ! 4 \<noteq> 44"
proof -
  have h: "(0::int) \<le> 43898219" by simp
  have len: "length (formatNumber 43898219) = 10"
    by (simp add: formatNumber_def Intl_NumberFormat_koKR_format_def digits10.simps)
  have d: "digits10 (nat 43898219) = ascii ''43898219''"
    by (simp add: ascii_def digits10.simps)
  from formatNumber_groups_of_three [OF h] len d
  show ?thesis by simp
qed

section \<open>Properties of the billing calculator\<close>

lemma tierCosts_by_index:
  "schedule_ok L ts \<Longrightarrow>
   tierCosts L kwh ts =
     (\<Sum>i < length ts.
        clamp (kwh - (if i = 0 then L else the (thresholdKWh (ts ! (i - 1))))) 0
          (map_option (\<lambda>U. U - (if i = 0 then L else the (thresholdKWh (ts ! (i - 1)))))
             (thresholdKWh (ts ! i)))
        * pricePerKWh (ts ! i))"
proof (induction L ts rule: schedule_ok.induct)
  case (1 L)
  then show ?case by simp
next
  case (2 L t)
  then show ?case by simp
next
  case (3 L t v va)
  let ?ts = "t # v # va"
  let ?g = "\<lambda>i. clamp (kwh - (if i = 0 then L else the (thresholdKWh (?ts ! (i - 1))))) 0
          (map_option (\<lambda>U. U - (if i = 0 then L else the (thresholdKWh (?ts ! (i - 1)))))
             (thresholdKWh (?ts ! i)))
        * pricePerKWh (?ts ! i)"
  from "3.prems" obtain U where U: "thresholdKWh t = Some U" and ok: "schedule_ok U (v # va)"
    by (auto split: option.splits)
  have "tierCosts L kwh ?ts = ?g 0 + tierCosts U kwh (v # va)"
    using U by simp
  also have "tierCosts U kwh (v # va) = (\<Sum>i < length (v # va). ?g (Suc i))"
    unfolding "3.IH" [OF U ok]
    by (rule sum.cong) (auto simp: nth_Cons' U)
  also have "?g 0 + (\<Sum>i < length (v # va). ?g (Suc i)) = (\<Sum>i < Suc (length (v # va)). ?g i)"
    by (rule sum.lessThan_Suc_shift [symmetric])
  finally show ?case by simp
qed

lemma tierCosts_zero: "0 \<le> L \<Longrightarrow> schedule_ok L ts \<Longrightarrow> tierCosts L 0 ts = 0"
proof (induction L ts rule: schedule_ok.induct)
  case (3 L t v va)
  then show ?case by (auto simp: clamp_def split: option.splits)
qed (auto simp: clamp_def)

text \<open>
  Claim C1.  For a schedule as the specification describes it and a usage that is not
  negative, the Billing Calculator returns the round-half-up integer of the sum over the
  tiers of \<open>clamp(usage - L[i], 0, U[i] - L[i])\<close> times the price of tier \<open>i\<close>.  For the
  schedule of 0 to 100 kWh at 100 and above 100 kWh at 200, a usage of 150 costs 20,000
  and a usage of exactly 100 is billed at the lower rate only and costs 10,000.
\<close>

theorem billingCost_tiered:
  assumes "schedule_ok 0 tiers" and "0 \<le> kwh"
  shows "billingCost kwh tiers = Inr (round_half_up (tieredSum tiers kwh))
    \<and> billingCost 150 example_schedule = Inr 20000
    \<and> billingCost 100 example_schedule = Inr 10000"
proof -
  have "tierCosts 0 kwh tiers = tieredSum tiers kwh"
    unfolding tierCosts_by_index [OF assms(1)]
    by (simp add: tieredSum_def billable_def lowerBound_def upperBound_def)
  with assms(2) have "billingCost kwh tiers = Inr (round_half_up (tieredSum tiers kwh))"
    by (simp add: billingCost_def)
  moreover have "billingCost 150 example_schedule = Inr 20000"
    by code_simp
  moreover have "billingCost 100 example_schedule = Inr 10000"
    by code_simp
  ultimately show ?thesis by simp
qed

theorem billingCost_tiered_witness:
  "schedule_ok 0 example_schedule \<and> (0::rat) \<le> 150
   \<and> round_half_up (tieredSum example_schedule 150) = 20000"
proof -
  have ok: "schedule_ok 0 example_schedule"
    by (simp add: example_schedule_def)
  have nonneg: "(0::rat) \<le> 150" by simp
  from billingCost_tiered [OF ok nonneg]
  have "Inr (round_half_up (tieredSum example_schedule 150)) = (Inr 20000 :: billing_error + int)"
    by (elim conjE) simp
  with ok show ?thesis by simp
qed

text \<open>
  Claim C2.  Every negative usage is rejected with a validation error, whatever the
  schedule (so before any cost is computed), and is never answered with the cost 0; a
  usage of 0 costs 0.
\<close>

theorem billingCost_rejects_negative:
  "(kwh < 0 \<longrightarrow> billingCost kwh tiers = Inl ValidationError \<and> billingCost kwh tiers \<noteq> Inr 0)
   \<and> (schedule_ok 0 tiers \<longrightarrow> billingCost 0 tiers = Inr 0)"
proof -
  have "round_half_up 0 = 0"
    by code_simp
  then show ?thesis
    by (simp add: billingCost_def tierCosts_zero)
qed

theorem billingCost_rejects_negative_witness:
  "(-5::rat) < 0 \<and> billingCost (-5) example_schedule = Inl ValidationError
   \<and> billingCost (-5) example_schedule \<noteq> Inr 0
   \<and> schedule_ok 0 example_schedule \<and> billingCost 0 example_schedule = Inr 0"
proof -
  have ok: "schedule_ok 0 example_schedule"
    by (simp add: example_schedule_def)
  from billingCost_rejects_negative [of "-5" example_schedule] ok show ?thesis by simp
qed

section \<open>Properties of the renderer\<close>

lemma Math_round_totalUsage: "Math_round (derived_totalUsage monthlyData) = Math_round 1880327.03"
  by code_simp

lemma is_int_totalCost: "derived_totalCost monthlyData = of_int 526778625"
  by code_simp

lemma Math_round_avgUsage: "Math_round (derived_totalUsage monthlyData / 12) = Math_round 156693.92"
  by code_simp

lemma Math_round_avgCost: "Math_round (derived_totalCost monthlyData / 12) = 43898219"
  by code_simp

text \<open>
  Claim C3.  The four figures that \<open>updateSummaryData\<close> writes are the figures derived from
  the twelve monthly records: the total usage slot shows the formatted \<open>round\<close> of the sum
  of the usages, the total cost slot the formatted sum of the costs (an integer), the
  average slots the formatted \<open>round\<close> of the sums divided by 12, each followed by its
  unit.
\<close>

theorem summary_figures_match_records:
  "total_usage (updateSummaryData s)
     = formatNumber (Math_round (derived_totalUsage monthlyData)) @ ascii '' kWh''
   \<and> derived_totalCost monthlyData \<in> \<int>
   \<and> total_cost (updateSummaryData s)
     = formatNumber \<lfloor>derived_totalCost monthlyData\<rfloor> @ [32, 50896]
   \<and> avg_usage (updateSummaryData s)
     = formatNumber (Math_round (derived_totalUsage monthlyData / 12)) @ ascii '' kWh''
   \<and> avg_cost (updateSummaryData s)
     = formatNumber (Math_round (derived_totalCost monthlyData / 12)) @ [32, 50896]"
proof -
  have "total_usage (updateSummaryData s)
      = formatNumber (Math_round (derived_totalUsage monthlyData)) @ ascii '' kWh''"
    by (simp add: updateSummaryData_def Math_round_totalUsage)
  moreover have "derived_totalCost monthlyData \<in> \<int>"
    by (simp add: is_int_totalCost)
  moreover have "total_cost (updateSummaryData s)
      = formatNumber \<lfloor>derived_totalCost monthlyData\<rfloor> @ [32, 50896]"
    by (simp add: updateSummaryData_def is_int_totalCost)
  moreover have "avg_usage (updateSummaryData s)
      = formatNumber (Math_round (derived_totalUsage monthlyData / 12)) @ ascii '' kWh''"
    by (simp add: updateSummaryData_def Math_round_avgUsage)
  moreover have "avg_cost (updateSummaryData s)
      = formatNumber (Math_round (derived_totalCost monthlyData / 12)) @ [32, 50896]"
    by (simp add: updateSummaryData_def Math_round_avgCost)
  ultimately show ?thesis by blast
qed

lemma foldl_appendChild:
  "foldl (\<lambda>tipsGrid (index, tip). tipsGrid @ [newTipCard tip index]) grid tips
   = grid @ map (\<lambda>(index, tip). newTipCard tip index) tips"
  by (induction tips arbitrary: grid) auto

lemma tips_grid_createTipCards:
  "tips_grid (createTipCards s)
   = tips_grid s @ map (\<lambda>(index, tip). newTipCard tip index) (enumerate 0 (energyTips_var s))"
  by (simp add: createTipCards_def foldl_appendChild)

lemma energyTips_var_createTipCards: "energyTips_var (createTipCards s) = energyTips_var s"
  by (simp add: createTipCards_def)

lemma length_energyTips: "length energyTips = 10"
  by (simp add: energyTips_def)

lemma tips_grid_DOMContentLoaded:
  "tips_grid (DOMContentLoaded s) = tips_grid (createTipCards s)"
  by (simp add: DOMContentLoaded_def setChartHeight_def createTipCards_def updateSummaryData_def)

lemma length_tips_grid_timeout:
  "length (tips_grid (DOMContentLoaded_timeout s)) = length (tips_grid s)"
  by (simp add: DOMContentLoaded_timeout_def addScrollAnimations_def addCardInteractions_def
      createChart_def Let_def)

text \<open>
  Claim C4 fails as stated: \<open>createTipCards\<close> appends to the tips grid and never clears
  it, so two invocations on the ten tips leave 20 cards.
\<close>

theorem createTipCards_twice_counterexample:
  "length (tips_grid (createTipCards (createTipCards fresh_page))) \<noteq> 10"
  by (simp add: tips_grid_createTipCards energyTips_var_createTipCards fresh_page_def
      length_energyTips)

text \<open>
  Claim C4, amended.  Every invocation of \<open>createTipCards\<close> appends one card per tip, in
  order, after the cards the grid already holds: two invocations add twice the number of
  tips (20 cards for the ten tips on an empty grid).  The page load invokes it once, on the
  empty grid, and shows exactly ten cards.
\<close>

theorem createTipCards_appends:
  "tips_grid (createTipCards s)
     = tips_grid s @ map (\<lambda>(index, tip). newTipCard tip index) (enumerate 0 (energyTips_var s))
   \<and> length (tips_grid (createTipCards (createTipCards s)))
     = length (tips_grid s) + 2 * length (energyTips_var s)
   \<and> length (tips_grid (createTipCards (createTipCards fresh_page))) = 20
   \<and> length (tips_grid (DOMContentLoaded_timeout (DOMContentLoaded fresh_page))) = 10"
  by (simp add: tips_grid_createTipCards energyTips_var_createTipCards fresh_page_def
      length_energyTips length_tips_grid_timeout tips_grid_DOMContentLoaded)

section \<open>Properties of the chart\<close>

lemma Object_values_monthlyData: "Object_values monthlyData = map snd monthlyData"
  by (simp add: Object_values_def monthlyData_def)

lemma usageData_by_month:
  "map (\<lambda>data. Math_round (usage data)) (map snd monthlyData)
   = map (\<lambda>i. Math_round (usage (the (map_of monthlyData i)))) [1 ..< 13]"
  by code_simp

lemma costData_by_month:
  "map (\<lambda>data. Math_round (cost data / 1000000)) (map snd monthlyData)
   = map (\<lambda>i. Math_round (cost (the (map_of monthlyData i)) / 1000000)) [1 ..< 13]"
  by code_simp

lemma january: "cost (the (map_of monthlyData 1)) = 55366215 \<and> Math_round (55366215 / 1000000) = 55"
  by code_simp

lemma nth_map_months:
  assumes "i \<in> {1..12}"
  shows "map f [1 ..< 13] ! (i - 1) = f i"
proof -
  from assms have len: "i - 1 < length [1 ..< (13::nat)]" and less: "1 + (i - 1) < 13"
    and i: "1 + (i - 1) = i"
    by auto
  have "map f [1 ..< 13] ! (i - 1) = f ([1 ..< 13] ! (i - 1))"
    using len by (rule nth_map)
  also have "[1 ..< 13] ! (i - 1) = 1 + (i - 1)"
    using less by (rule nth_upt)
  finally show ?thesis
    by (simp only: i)
qed

text \<open>
  Claim C5.  The chart that \<open>createChart\<close> builds from the embedded dataset has two
  series of twelve values under the twelve month labels; for every month \<open>i\<close> from 1 to
  12 the bar series (axis \<open>y\<close>) holds \<open>round(usage)\<close> of month \<open>i\<close> at position \<open>i\<close> and the
  line series (axis \<open>y1\<close>) holds \<open>round(cost / 1000000)\<close> of month \<open>i\<close>.  Month 1 has
  the cost 55,366,215 and the line value 55.
\<close>

theorem chart_series_by_month:
  assumes "monthlyData_var s = monthlyData"
  shows "\<exists>cfg bars line. monthlyChart (createChart s) = Some cfg
    \<and> datasets cfg = [bars, line] \<and> yAxisID bars = ascii ''y'' \<and> yAxisID line = ascii ''y1''
    \<and> labels cfg = months \<and> length months = 12
    \<and> length (data bars) = 12 \<and> length (data line) = 12
    \<and> (\<forall>i \<in> {1..12}.
          data bars ! (i - 1) = Math_round (usage (the (map_of monthlyData i)))
          \<and> data line ! (i - 1) = Math_round (cost (the (map_of monthlyData i)) / 1000000))
    \<and> cost (the (map_of monthlyData 1)) = 55366215 \<and> data line ! 0 = 55"
proof -
  let ?u = "map (\<lambda>i. Math_round (usage (the (map_of monthlyData i)))) [1 ..< 13]"
  let ?c = "map (\<lambda>i. Math_round (cost (the (map_of monthlyData i)) / 1000000)) [1 ..< 13]"
  obtain cfg where cfg: "monthlyChart (createChart s) = Some cfg"
    by (simp add: createChart_def Let_def)
  then have ds: "datasets cfg =
      [\<lparr>label = [51204, 47141, 32, 49324, 50857, 47049, 32, 40, 107, 87, 104, 41],
        data = ?u, yAxisID = ascii ''y''\<rparr>,
       \<lparr>label = [51204, 44592, 50836, 44552, 32, 40, 48177, 47564, 50896, 41],
        data = ?c, yAxisID = ascii ''y1''\<rparr>]"
    and lb: "labels cfg = months"
    using assms
    by (auto simp: createChart_def Let_def Object_values_monthlyData usageData_by_month
        costData_by_month simp del: map_map)
  have "\<forall>i \<in> {1..12}. ?u ! (i - 1) = Math_round (usage (the (map_of monthlyData i)))
          \<and> ?c ! (i - 1) = Math_round (cost (the (map_of monthlyData i)) / 1000000)"
  proof (intro ballI conjI)
    fix i :: nat
    assume i: "i \<in> {1..12}"
    show "?u ! (i - 1) = Math_round (usage (the (map_of monthlyData i)))"
      using i by (rule nth_map_months)
    show "?c ! (i - 1) = Math_round (cost (the (map_of monthlyData i)) / 1000000)"
      using i by (rule nth_map_months)
  qed
  moreover have "?c ! 0 = 55"
    using january by (simp add: upt_rec)
  moreover have "length months = 12"
    by (simp add: months_def)
  ultimately show ?thesis
    using cfg ds lb january by simp
qed

theorem chart_series_by_month_witness:
  "monthlyData_var fresh_page = monthlyData
   \<and> data (datasets (the (monthlyChart (createChart fresh_page))) ! 0) ! 7 = 202643
   \<and> data (datasets (the (monthlyChart (createChart fresh_page))) ! 1) ! 7 = 57"
proof -
  have h: "monthlyData_var fresh_page = monthlyData"
    by (simp add: fresh_page_def)
  have aug: "Math_round (usage (the (map_of monthlyData 8))) = 202643
      \<and> Math_round (cost (the (map_of monthlyData 8)) / 1000000) = 57"
    by code_simp
  from chart_series_by_month [OF h] obtain cfg bars line where
    "monthlyChart (createChart fresh_page) = Some cfg" "datasets cfg = [bars, line]"
    "\<forall>i \<in> {1..12}.
          data bars ! (i - 1) = Math_round (usage (the (map_of monthlyData i)))
          \<and> data line ! (i - 1) = Math_round (cost (the (map_of monthlyData i)) / 1000000)"
    by blast
  then show ?thesis
    using h aug by (auto dest: bspec [where x = 8])
qed

lemma trailing_zeros_dvd: "10 ^ trailing_zeros n dvd n"
proof (induction n rule: trailing_zeros.induct)
  case (1 n)
  show ?case
  proof (cases "n = 0 \<or> n mod 10 \<noteq> 0")
    case True
    then show ?thesis by (subst trailing_zeros.simps) simp
  next
    case False
    with "1.IH" have "10 ^ trailing_zeros (n div 10) dvd n div 10" by simp
    then have "10 * 10 ^ trailing_zeros (n div 10) dvd 10 * (n div 10)"
      by (rule mult_dvd_mono [OF dvd_refl])
    moreover from False have "10 * (n div 10) = n" by presburger
    ultimately show ?thesis
      using False by (subst trailing_zeros.simps) simp
  qed
qed

lemma significand_of_nat:
  "n div 10 ^ trailing_zeros n * 10 ^ trailing_zeros n = n"
  using trailing_zeros_dvd [of n] by simp

lemma digits10_times_10: "0 < m \<Longrightarrow> digits10 (m * 10) = digits10 m @ [48]"
  by (subst digits10.simps) simp

lemma digits10_times_power: "0 < m \<Longrightarrow> digits10 (m * 10 ^ j) = digits10 m @ replicate j 48"
proof (induction j)
  case 0
  then show ?case by simp
next
  case (Suc j)
  then have "digits10 (m * 10 ^ j * 10) = (digits10 m @ replicate j 48) @ [48]"
    by (simp add: digits10_times_10)
  moreover have "m * 10 ^ Suc j = m * 10 ^ j * 10"
    by simp
  ultimately show ?case
    by (simp only: append_assoc replicate_append_same replicate_Suc)
qed

lemma length_digits10_le: "0 < j \<Longrightarrow> n < 10 ^ j \<Longrightarrow> length (digits10 n) \<le> j"
proof (induction n arbitrary: j rule: digits10.induct)
  case (1 n)
  show ?case
  proof (cases "n < 10")
    case True
    with "1.prems" show ?thesis by (subst digits10.simps) simp
  next
    case False
    from "1.prems" obtain i where j: "j = Suc i"
      by (cases j) auto
    from False "1.prems" j have i: "0 < i"
      by (cases i) auto
    from "1.prems" j have "n div 10 < 10 ^ i"
      by (simp add: less_mult_imp_div_less mult.commute)
    with "1.IH" [OF False i] have "length (digits10 (n div 10)) \<le> i" .
    with False j show ?thesis by (subst digits10.simps) simp
  qed
qed

lemma Number_toString_of_int:
  assumes "\<bar>v\<bar> < 10 ^ 21"
  shows "Number_toString (Number_of_int v) = (if v < 0 then [45] else []) @ digits10 (nat \<bar>v\<bar>)"
proof (cases "v = 0")
  case True
  then show ?thesis
    by (simp add: Number_toString_def Number_of_int_def digits10.simps)
next
  case False
  let ?a = "nat \<bar>v\<bar>"
  let ?z = "trailing_zeros ?a"
  let ?s = "?a div 10 ^ ?z"
  have a: "?s * 10 ^ ?z = ?a"
    by (rule significand_of_nat)
  with False have s: "0 < ?s"
    by (intro gr0I) auto
  have digits: "digits10 ?a = digits10 ?s @ replicate ?z 48"
    using digits10_times_power [OF s, of ?z] a by simp
  from assms have "?a < 10 ^ 21"
    by (simp add: nat_less_iff)
  then have "length (digits10 ?a) \<le> 21"
    by (intro length_digits10_le) simp_all
  then have "length (digits10 ?s) + ?z \<le> 21"
    by (simp add: digits)
  with s show ?thesis
    by (simp add: Number_toString_def Number_of_int_def Let_def digits)
qed

lemma formatNumber_number_of_int: "formatNumber_number (Number_of_int v) = formatNumber v"
proof -
  let ?a = "nat \<bar>v\<bar>"
  have "round_to_thousandths (Number_of_int v)
      = ?a div 10 ^ trailing_zeros ?a * 10 ^ (trailing_zeros ?a + 3)"
    by (simp add: round_to_thousandths_def Number_of_int_def Let_def nat_add_distrib)
  also have "\<dots> = (?a div 10 ^ trailing_zeros ?a * 10 ^ trailing_zeros ?a) * 1000"
    by (simp add: power_add)
  also have "\<dots> = ?a * 1000"
    by (simp only: significand_of_nat)
  finally have "round_to_thousandths (Number_of_int v) = ?a * 1000" .
  then show ?thesis
    by (simp add: formatNumber_number_def Intl_NumberFormat_koKR_format_number_def Let_def
        formatNumber_def Intl_NumberFormat_koKR_format_def fraction_digits_def Number_of_int_def)
qed

lemma group3_short: "length ds \<le> 3 \<Longrightarrow> group3 ds = ds"
  by (induction ds rule: group3.induct) auto

lemma integral_ticks_below_1000_agree:
  assumes "\<bar>v\<bar> < 1000"
  shows "Number_toString (Number_of_int v) = formatNumber_number (Number_of_int v)"
proof -
  from assms have "nat \<bar>v\<bar> < 10 ^ 3"
    by simp
  then have "length (rev (digits10 (nat \<bar>v\<bar>))) \<le> 3"
    using length_digits10_le [of 3 "nat \<bar>v\<bar>"] by simp
  then have "group3 (rev (digits10 (nat \<bar>v\<bar>))) = rev (digits10 (nat \<bar>v\<bar>))"
    by (rule group3_short)
  moreover from assms have "\<bar>v\<bar> < 10 ^ 21"
    by simp
  ultimately show ?thesis
    by (simp add: Number_toString_of_int formatNumber_number_of_int formatNumber_def
        Intl_NumberFormat_koKR_format_def)
qed





section \<open>Properties of the tip cards\<close>

lemma tipCardHTML_shape:
  "tipCardHTML tip =
     (10 # replicate 12 32 @ ascii ''<span class='' @ [34] @ ascii ''tip-icon'' @ [34] @ ascii ''>'')
     @ icon tip @ 60 # (ascii ''/span>'' @ 10 # replicate 12 32 @ ascii ''<h3>'')
     @ title tip @ 60 # (ascii ''/h3>'' @ 10 # replicate 12 32 @ ascii ''<p>'')
     @ description tip @ 60 # (ascii ''/p>'' @ 10 # replicate 8 32)"
  by (simp add: tipCardHTML_def ascii_def)

lemma first_occurrence_unique:
  "x \<notin> set a \<Longrightarrow> x \<notin> set b \<Longrightarrow> a @ x # r = b @ x # r' \<Longrightarrow> a = b \<and> r = r'"
proof (induction a arbitrary: b)
  case Nil
  then show ?case by (cases b) auto
next
  case (Cons y ys)
  then show ?case by (cases b) auto
qed

lemma three_fields_unique:
  assumes "x \<notin> set i" "x \<notin> set i'" "x \<notin> set t" "x \<notin> set t'" "x \<notin> set d" "x \<notin> set d'"
    and "A @ i @ x # B @ t @ x # C @ d @ x # D = A @ i' @ x # B @ t' @ x # C @ d' @ x # D"
  shows "i = i' \<and> t = t' \<and> d = d'"
proof -
  from assms(7) have "i @ x # (B @ t @ x # C @ d @ x # D) = i' @ x # (B @ t' @ x # C @ d' @ x # D)"
    by simp
  from first_occurrence_unique [OF assms(1,2) this]
  have i: "i = i'" and "t @ x # (C @ d @ x # D) = t' @ x # (C @ d' @ x # D)"
    by simp_all
  from first_occurrence_unique [OF assms(3,4) this(2)]
  have t: "t = t'" and "d @ x # D = d' @ x # D"
    by simp_all
  from first_occurrence_unique [OF assms(5,6) this(2)]
  have "d = d'"
    by simp
  with i t show ?thesis by simp
qed

lemma tipCardHTML_inj_on_markup_free:
  assumes "markup_free t" "markup_free t'" "tipCardHTML t = tipCardHTML t'"
  shows "t = t'"
proof -
  from assms(1,2) have "60 \<notin> set (icon t)" "60 \<notin> set (icon t')" "60 \<notin> set (title t)"
    "60 \<notin> set (title t')" "60 \<notin> set (description t)" "60 \<notin> set (description t')"
    by (simp_all add: markup_free_def)
  moreover note assms(3) [unfolded tipCardHTML_shape]
  ultimately have "icon t = icon t' \<and> title t = title t' \<and> description t = description t'"
    by (rule three_fields_unique)
  then show ?thesis by simp
qed

lemma markup_tips_collide:
  "markup_tip_title \<noteq> markup_tip_description
   \<and> tipCardHTML markup_tip_title = tipCardHTML markup_tip_description
   \<and> \<not> markup_free markup_tip_title \<and> \<not> markup_free markup_tip_description"
  by (simp add: markup_tip_title_def markup_tip_description_def tipCardHTML_def markup_free_def
      ascii_def)

lemma energyTips_markup_free: "list_all markup_free energyTips"
  by (simp add: energyTips_def markup_free_def)

text \<open>
  Claim C10.  The card of a tip holds the template with the three fields inserted as they
  are, without escaping.  On records free of markup the HTML determines the record, so the
  card can show the fields themselves, and the ten embedded tips are free of markup.  With
  markup this fails: two different records with markup produce the same HTML, so whatever
  text the browser shows for a card, for some record with markup it differs from the
  record's fields.
\<close>

theorem tipCard_unescaped:
  "innerHTML (newTipCard tip index) = tipCardHTML tip
   \<and> (\<forall>t t'. markup_free t \<and> markup_free t' \<and> tipCardHTML t = tipCardHTML t' \<longrightarrow> t = t')
   \<and> list_all markup_free energyTips
   \<and> markup_tip_title \<noteq> markup_tip_description
   \<and> tipCardHTML markup_tip_title = tipCardHTML markup_tip_description
   \<and> (\<forall>display. \<exists>t. \<not> markup_free t
        \<and> display (innerHTML (newTipCard t index)) \<noteq> (icon t, title t, description t))"
proof -
  have html: "innerHTML (newTipCard t index) = tipCardHTML t" for t
    by (simp add: newTipCard_def Let_def)
  have "\<exists>t. \<not> markup_free t
        \<and> display (innerHTML (newTipCard t index)) \<noteq> (icon t, title t, description t)"
    for display :: "js_string \<Rightarrow> js_string \<times> js_string \<times> js_string"
  proof (cases "display (tipCardHTML markup_tip_title)
      = (icon markup_tip_title, title markup_tip_title, description markup_tip_title)")
    case True
    then have "display (tipCardHTML markup_tip_description)
      \<noteq> (icon markup_tip_description, title markup_tip_description,
          description markup_tip_description)"
      using markup_tips_collide
      by (simp add: markup_tip_title_def markup_tip_description_def)
    with markup_tips_collide html show ?thesis by metis
  next
    case False
    with markup_tips_collide html show ?thesis by metis
  qed
  with html tipCardHTML_inj_on_markup_free energyTips_markup_free markup_tips_collide
  show ?thesis by blast
qed

theorem tipCard_unescaped_witness:
  "markup_free (energyTips ! 0) \<and> markup_free (energyTips ! 1)
   \<and> tipCardHTML (energyTips ! 0) \<noteq> tipCardHTML (energyTips ! 1)"
proof -
  have mf: "markup_free (energyTips ! 0)" "markup_free (energyTips ! 1)"
    by (simp_all add: energyTips_def markup_free_def)
  have ne: "energyTips ! 0 \<noteq> energyTips ! 1"
    by (simp add: energyTips_def)
  from tipCard_unescaped [of "energyTips ! 0" 0] mf ne show ?thesis
    by blast
qed

section \<open>Properties of the interaction layer\<close>

lemma observer_callback_Nil: "observer_callback [] s = s"
  by (simp add: observer_callback_def)

lemma observer_callback_Cons:
  "observer_callback (entry # entries) s =
     observer_callback entries
       (if isIntersecting entry
        then s\<lparr>animated_sections :=
                 (animated_sections s)[target entry := reveal (animated_sections s ! target entry)]\<rparr>
        else s)"
  by (simp add: observer_callback_def)

lemma observer_callback_keeps:
  "monthlyData_var (observer_callback entries s) = monthlyData_var s
   \<and> observed (observer_callback entries s) = observed s
   \<and> length (animated_sections (observer_callback entries s)) = length (animated_sections s)"
  by (induction entries arbitrary: s) (simp_all add: observer_callback_Nil observer_callback_Cons)

lemma revealed_reveal: "revealed (reveal el)"
  by (simp add: revealed_def reveal_def)

lemma list_update_reveal_keeps_revealed:
  "i < length xs \<Longrightarrow> revealed (xs ! i) \<Longrightarrow> revealed (xs[t := reveal (xs ! t)] ! i)"
  by (cases "t = i") (simp_all add: revealed_reveal)

lemma observer_callback_keeps_revealed:
  "i < length (animated_sections s) \<Longrightarrow> revealed (animated_sections s ! i)
   \<Longrightarrow> revealed (animated_sections (observer_callback entries s) ! i)"
proof (induction entries arbitrary: s)
  case Nil
  then show ?case by (simp add: observer_callback_Nil)
next
  case (Cons entry entries)
  show ?case
    unfolding observer_callback_Cons
    by (rule Cons.IH) (use Cons.prems in \<open>auto simp: list_update_reveal_keeps_revealed\<close>)
qed

lemma observer_callback_reveals:
  "i < length (animated_sections s) \<Longrightarrow> e \<in> set entries \<Longrightarrow> target e = i \<Longrightarrow> isIntersecting e
   \<Longrightarrow> revealed (animated_sections (observer_callback entries s) ! i)"
proof (induction entries arbitrary: s)
  case Nil
  then show ?case by simp
next
  case (Cons entry entries)
  show ?case
  proof (cases "entry = e")
    case True
    show ?thesis
      unfolding observer_callback_Cons
      by (rule observer_callback_keeps_revealed)
        (use True Cons.prems in \<open>auto simp: revealed_reveal\<close>)
  next
    case False
    with Cons.prems have "e \<in> set entries" by simp
    with Cons.prems show ?thesis
      unfolding observer_callback_Cons
      by (intro Cons.IH) auto
  qed
qed

lemma handle_event_keeps:
  "monthlyData_var (handle_event ev s) = monthlyData_var s
   \<and> observed (handle_event ev s) = observed s
   \<and> length (animated_sections (handle_event ev s)) = length (animated_sections s)"
  by (cases ev) (simp_all add: observer_callback_keeps)

lemma handle_event_keeps_revealed:
  "i < length (animated_sections s) \<Longrightarrow> revealed (animated_sections s ! i)
   \<Longrightarrow> revealed (animated_sections (handle_event ev s) ! i)"
  by (cases ev) (simp_all add: observer_callback_keeps_revealed)

lemma handle_events_keeps_revealed:
  "i < length (animated_sections s) \<Longrightarrow> revealed (animated_sections s ! i)
   \<Longrightarrow> revealed (animated_sections (handle_events evs s) ! i)"
proof (induction evs arbitrary: s)
  case Nil
  then show ?case by (simp add: handle_events_def)
next
  case (Cons ev evs)
  have "revealed (animated_sections (handle_events evs (handle_event ev s)) ! i)"
    by (rule Cons.IH) (use Cons.prems in \<open>simp_all add: handle_event_keeps handle_event_keeps_revealed\<close>)
  then show ?case by (simp add: handle_events_def)
qed

lemma revealed_not_hidden: "revealed el \<Longrightarrow> \<not> hidden el"
  by (simp add: revealed_def hidden_def ascii_def)

text \<open>
  Claim C9.  The reveal is a one-shot latch.  When a batch of intersection entries holds
  an intersecting entry for an observed section, that section is visible and settled
  after the batch, and it stays so, never hidden again, after every later sequence of
  events: intersection batches, including entries that report the section as no longer
  intersecting, as well as clicks, timers, hovering and resizing.
\<close>

theorem reveal_is_latched:
  assumes "i < length (animated_sections s)" and "i \<in> set (observed s)"
    and "e \<in> set entries" and "target e = i" and "isIntersecting e"
  shows "revealed (animated_sections (handle_events evs (handle_event (Intersection entries) s)) ! i)
    \<and> \<not> hidden (animated_sections (handle_events evs (handle_event (Intersection entries) s)) ! i)"
proof -
  let ?s1 = "handle_event (Intersection entries) s"
  from assms have "e \<in> set (filter (\<lambda>e. target e \<in> set (observed s)) entries)"
    by simp
  then have "revealed (animated_sections
      (observer_callback (filter (\<lambda>e. target e \<in> set (observed s)) entries) s) ! i)"
    using assms(1,4,5) by (intro observer_callback_reveals [where e = e])
  then have "revealed (animated_sections ?s1 ! i)"
    by simp
  moreover have "i < length (animated_sections ?s1)"
    using assms(1) by (simp only: handle_event_keeps)
  ultimately have "revealed (animated_sections (handle_events evs ?s1) ! i)"
    by (intro handle_events_keeps_revealed)
  then show ?thesis
    using revealed_not_hidden by blast
qed

lemma sections_after_load:
  "animated_sections (DOMContentLoaded_timeout (DOMContentLoaded s)) = map hide (animated_sections s)
   \<and> observed (DOMContentLoaded_timeout (DOMContentLoaded s))
       = observed s @ [0 ..< length (animated_sections s)]"
  by (simp add: DOMContentLoaded_timeout_def DOMContentLoaded_def addScrollAnimations_def
      addCardInteractions_def createChart_def setChartHeight_def createTipCards_def
      updateSummaryData_def Let_def)

theorem reveal_is_latched_witness:
  "0 < length (animated_sections (DOMContentLoaded_timeout (DOMContentLoaded fresh_page)))
   \<and> 0 \<in> set (observed (DOMContentLoaded_timeout (DOMContentLoaded fresh_page)))
   \<and> hidden (animated_sections (DOMContentLoaded_timeout (DOMContentLoaded fresh_page)) ! 0)
   \<and> revealed (animated_sections
        (handle_events
           [Intersection [\<lparr>target = 0, isIntersecting = False\<rparr>], Click 0, ClickTimeout 0, Resize]
           (handle_event (Intersection [\<lparr>target = 0, isIntersecting = True\<rparr>])
              (DOMContentLoaded_timeout (DOMContentLoaded fresh_page)))) ! 0)"
proof -
  let ?s = "DOMContentLoaded_timeout (DOMContentLoaded fresh_page)"
  let ?e = "\<lparr>target = 0, isIntersecting = True\<rparr>"
  have len: "0 < length (animated_sections ?s)"
    and obs: "0 \<in> set (observed ?s)"
    and hid: "hidden (animated_sections ?s ! 0)"
    by (simp_all add: sections_after_load fresh_page_def hidden_def hide_def)
  have e: "?e \<in> set [?e]" "target ?e = 0" "isIntersecting ?e"
    by simp_all
  from reveal_is_latched [OF len obs e] len obs hid show ?thesis
    by blast
qed

section \<open>Properties of the dataset\<close>

lemma perform_keeps_monthlyData: "monthlyData_var (perform op s) = monthlyData_var s"
  by (cases op)
    (simp_all add: updateSummaryData_def createTipCards_def setChartHeight_def createChart_def
      addCardInteractions_def addScrollAnimations_def handle_event_keeps Let_def)

lemma perform_all_keeps_monthlyData: "monthlyData_var (perform_all ops s) = monthlyData_var s"
proof -
  have "monthlyData_var (foldl (\<lambda>s op. perform op s) s ops) = monthlyData_var s"
    by (induction ops arbitrary: s) (simp_all add: perform_keeps_monthlyData)
  then show ?thesis by (simp add: perform_all_def)
qed

lemma monthlyData_keys: "map fst monthlyData = [1 ..< 13]"
  by (simp add: monthlyData_def upt_rec)

lemma monthlyData_values:
  "\<forall>(month, r) \<in> set monthlyData. 0 \<le> usage r \<and> 0 \<le> cost r \<and> cost r \<in> \<int>"
  by (simp add: monthlyData_def)

text \<open>
  Claim C8.  The embedded dataset holds exactly twelve records; their keys are the months
  1 to 12, each once (in this order); every usage is a non-negative number and every cost
  a non-negative integer.  No function or listener of the script changes the dataset: it
  is the same after any sequence of them.
\<close>

theorem monthlyData_invariant:
  "length monthlyData = 12
   \<and> map fst monthlyData = [1 ..< 13]
   \<and> distinct (map fst monthlyData)
   \<and> set (map fst monthlyData) = {1..12}
   \<and> (\<forall>(month, r) \<in> set monthlyData. 0 \<le> usage r \<and> 0 \<le> cost r \<and> cost r \<in> \<int>)
   \<and> monthlyData_var (perform_all ops s) = monthlyData_var s"
proof -
  have "length (map fst monthlyData) = 12"
    unfolding monthlyData_keys by simp
  then have "length monthlyData = 12"
    by simp
  moreover have "distinct (map fst monthlyData)"
    unfolding monthlyData_keys by simp
  moreover have "set (map fst monthlyData) = {1..12}"
    unfolding monthlyData_keys by auto
  ultimately show ?thesis
    using monthlyData_keys monthlyData_values perform_all_keeps_monthlyData by blast
qed

theorem monthlyData_invariant_witness:
  "(8, \<lparr>usage = 202643.01, cost = 56791534\<rparr>) \<in> set monthlyData
   \<and> (0::rat) \<le> 202643.01 \<and> (56791534::rat) \<in> \<int>
   \<and> monthlyData_var
        (perform_all
           [UpdateSummaryData, CreateTipCards, SetChartHeight, CreateChart, AddCardInteractions,
            AddScrollAnimations, Event (Click 0), Event (MouseEnter 3),
            Event (Intersection [\<lparr>target = 1, isIntersecting = True\<rparr>])]
           fresh_page) = monthlyData"
proof -
  have m: "(8, \<lparr>usage = 202643.01, cost = 56791534\<rparr>) \<in> set monthlyData"
    by (simp add: monthlyData_def)
  have f: "monthlyData_var fresh_page = monthlyData"
    by (simp add: fresh_page_def)
  from monthlyData_invariant [of _ fresh_page] m f show ?thesis
    by fastforce
qed

end
